theory Spec2Isabelle
  imports Complex_Main "HOL-Library.Sublist"
begin

section \<open>Errors\<close>

text \<open>
  The exceptions that the modelled code can raise. A function that can raise returns
  \<open>error + 'a\<close>, with \<open>Inl\<close> for the exception.
\<close>

datatype error =
    ZeroDivisionError
  | ValueError
  | FileNotFoundError
  | IndexError
  | AssertionError

section \<open>Images and \<open>make_power_2\<close>\<close>

text \<open>
  A PIL image is its size \<open>(width, height)\<close> and its pixel data, which stays abstract.
\<close>

record 'px image =
  img_size :: "int \<times> int"
  pixels :: 'px

datatype resample_method = BICUBIC | DEFAULT_RESAMPLE

text \<open>
  \<open>Image.resize\<close>: a new image of the requested size; PIL refuses a size that is not
  positive. How the pixels are resampled is a parameter \<open>rs\<close>.
\<close>

definition resize ::
  "('px \<Rightarrow> int \<times> int \<Rightarrow> int \<times> int \<Rightarrow> resample_method \<Rightarrow> 'px) \<Rightarrow>
   'px image \<Rightarrow> int \<times> int \<Rightarrow> resample_method \<Rightarrow> error + 'px image" where
  "resize rs img sz method =
     (if fst sz \<le> 0 \<or> snd sz \<le> 0 then Inl ValueError
      else Inr \<lparr>img_size = sz, pixels = rs (pixels img) (img_size img) sz method\<rparr>)"

text \<open>
  Python's \<open>round(a / b)\<close> for integers \<open>a\<close> and \<open>b \<noteq> 0\<close>: the nearest integer
  to the quotient, a tie going to the even neighbour. The quotient is taken exactly;
  the float quotient of the source rounds the same way for all sizes below \<open>2 ^ 26\<close>.
\<close>

definition py_round_div :: "int \<Rightarrow> int \<Rightarrow> int" where
  "py_round_div a b =
     (let n = (if b < 0 then - a else a);
          d = \<bar>b\<bar>;
          q = n div d;
          r = n mod d
      in if 2 * r < d then q
         else if d < 2 * r then q + 1
         else if even q then q else q + 1)"

definition make_power_2 ::
  "('px \<Rightarrow> int \<times> int \<Rightarrow> int \<times> int \<Rightarrow> resample_method \<Rightarrow> 'px) \<Rightarrow>
   'px image \<Rightarrow> int \<Rightarrow> resample_method \<Rightarrow> error + 'px image" where
  "make_power_2 rs img base method =
     (let ow = fst (img_size img); oh = snd (img_size img)
      in if base = 0 then Inl ZeroDivisionError
         else
           let h = max (py_round_div oh base) 1 * base;
               w = max (py_round_div ow base) 1 * base
           in if h = oh \<and> w = ow then Inr img
              else resize rs img (w, h) method)"

section \<open>Strings and paths\<close>

text \<open>
  Strings are lists of characters. The functions below are Python's \<open>str.strip\<close>,
  \<open>str.replace\<close> and the POSIX versions of \<open>os.path.isabs\<close>, \<open>os.path.join\<close> and
  \<open>os.path.dirname\<close>, and \<open>readlines\<close> of a text file (every line keeps its newline).
  The whitespace characters are those of ASCII, and the contents of a text file are taken
  as Python's text mode gives them, every line ending already a single newline character.
\<close>

definition is_space :: "char \<Rightarrow> bool" where
  "is_space c = (c \<in> set [CHR 0x09, CHR 0x0A, CHR 0x0B, CHR 0x0C, CHR 0x0D,
                           CHR 0x1C, CHR 0x1D, CHR 0x1E, CHR 0x1F, CHR 0x20])"

definition strip :: "string \<Rightarrow> string" where
  "strip s = rev (dropWhile is_space (rev (dropWhile is_space s)))"

definition isabs :: "string \<Rightarrow> bool" where
  "isabs p = (case p of [] \<Rightarrow> False | c # _ \<Rightarrow> c = CHR ''/'')"

definition join2 :: "string \<Rightarrow> string \<Rightarrow> string" where
  "join2 path b =
     (if isabs b then b
      else if path = [] \<or> last path = CHR ''/'' then path @ b
      else path @ ''/'' @ b)"

definition path_join :: "string \<Rightarrow> string list \<Rightarrow> string" where
  "path_join a ps = foldl join2 a ps"

definition dirname :: "string \<Rightarrow> string" where
  "dirname p =
     (let head = rev (dropWhile (\<lambda>c. c \<noteq> CHR ''/'') (rev p))
      in if head \<noteq> [] \<and> \<not> list_all (\<lambda>c. c = CHR ''/'') head
         then rev (dropWhile (\<lambda>c. c = CHR ''/'') (rev head))
         else head)"

function str_replace :: "string \<Rightarrow> string \<Rightarrow> string \<Rightarrow> string" where
  "str_replace s old new =
     (case s of
        [] \<Rightarrow> (if old = [] then new else [])
      | c # cs \<Rightarrow>
          if old = [] then new @ c # str_replace cs old new
          else if prefix old s then new @ str_replace (drop (length old) s) old new
          else c # str_replace cs old new)"
  by pat_completeness auto
termination
  by (relation "measure (\<lambda>(s, old, new). length s)") auto

fun readlines :: "string \<Rightarrow> string list" where
  "readlines [] = []"
| "readlines (c # cs) =
     (if c = CHR 0x0A then [c] # readlines cs
      else (case readlines cs of [] \<Rightarrow> [[c]] | l # ls \<Rightarrow> (c # l) # ls))"

section \<open>The dataset class \<open>VOCImageFolder\<close>\<close>

text \<open>
  The fields of a \<open>VOCImageFolder\<close>. Its loader is \<open>default_loader\<close>, which reads the
  image file at a path: image files are a map from paths to images, text files a map from
  paths to their contents. The root is taken as given (\<open>os.path.expanduser\<close> leaves a
  path that does not start with a tilde as it is).
\<close>

record 'a VOCImageFolder =
  root_dir :: string
  transform :: "('a \<Rightarrow> 'a) option"
  samples :: "string list"
  data_list_file :: string

text \<open>The loop of \<open>parse_data_file\<close> over the lines read, appending to \<open>data_list\<close>.\<close>

fun parse_lines :: "string \<Rightarrow> string option \<Rightarrow> string list \<Rightarrow> string list \<Rightarrow> string list" where
  "parse_lines root' extension data_list [] = data_list"
| "parse_lines root' extension data_list (line # rest) =
     (let line' = strip line;
          path = (case extension of None \<Rightarrow> line' | Some e \<Rightarrow> line' @ e);
          path' = (if \<not> isabs path then path_join root' [''JPEGImages'', path] else path)
      in parse_lines root' extension (data_list @ [path']) rest)"

definition parse_data_file ::
  "(string \<rightharpoonup> string) \<Rightarrow> string \<Rightarrow> string \<Rightarrow> string option \<Rightarrow> error + string list" where
  "parse_data_file texts root' file_name extension =
     (case texts file_name of
        None \<Rightarrow> Inl FileNotFoundError
      | Some content \<Rightarrow> Inr (parse_lines root' extension [] (readlines content)))"

definition VOCImageFolder_init ::
  "(string \<rightharpoonup> string) \<Rightarrow> string \<Rightarrow> string \<Rightarrow> ('a \<Rightarrow> 'a) option \<Rightarrow> string option \<Rightarrow>
   error + 'a VOCImageFolder" where
  "VOCImageFolder_init texts root' phase tr extension =
     (let file = path_join root' [''ImageSets/Main/'' @ phase @ ''.txt'']
      in case parse_data_file texts root' file extension of
           Inl e \<Rightarrow> Inl e
         | Inr data_list \<Rightarrow>
             Inr \<lparr>root_dir = root', transform = tr, samples = data_list, data_list_file = file\<rparr>)"

definition len :: "'a VOCImageFolder \<Rightarrow> int" where
  "len self = int (length (samples self))"

text \<open>
  A Python value that \<open>__getitem__\<close> can give as the target of a sample: an integer
  (a class index) or a string.
\<close>

datatype pyval = PyInt int | PyStr string

fun is_class_index :: "pyval \<Rightarrow> bool" where
  "is_class_index (PyInt k) = True"
| "is_class_index (PyStr s) = False"

text \<open>
  \<open>__getitem__\<close>: list indexing as Python does it (a negative index counts from the
  end, an index out of range raises), the loader, the optional transform.
\<close>

definition getitem :: "(string \<rightharpoonup> 'a) \<Rightarrow> 'a VOCImageFolder \<Rightarrow> int \<Rightarrow> error + ('a \<times> pyval)" where
  "getitem imgs self index =
     (let n = int (length (samples self));
          j = (if index < 0 then n + index else index)
      in if j < 0 \<or> n \<le> j then Inl IndexError
         else
           let path = samples self ! nat j
           in case imgs path of
                None \<Rightarrow> Inl FileNotFoundError
              | Some img0 \<Rightarrow>
                  let img = (case transform self of None \<Rightarrow> img0 | Some t \<Rightarrow> t img0)
                  in Inr (img, PyStr path))"

subsection \<open>\<open>translate\<close>\<close>

text \<open>
  The file system as \<open>translate\<close> sees it: the image files, and the record of what was
  written (directories made, files saved), in order. \<open>os.makedirs\<close> raises on the empty
  path.
\<close>

datatype fs_event = Makedirs string | Save string

record 'px fs =
  files :: "string \<rightharpoonup> 'px image"
  written :: "fs_event list"

fun translate_loop ::
  "('px \<Rightarrow> int \<times> int \<Rightarrow> int \<times> int \<Rightarrow> resample_method \<Rightarrow> 'px) \<Rightarrow> ('px \<Rightarrow> 'px) \<Rightarrow>
   ('px image \<Rightarrow> 'px image) \<Rightarrow> string \<Rightarrow> string \<Rightarrow> int \<Rightarrow> string list \<Rightarrow> 'px fs \<Rightarrow>
   error + 'px fs" where
  "translate_loop rs convert_RGB tr root' target_root image_base [] fs = Inr fs"
| "translate_loop rs convert_RGB tr root' target_root image_base (path # rest) fs =
     (case files fs path of
        None \<Rightarrow> Inl FileNotFoundError
      | Some opened \<Rightarrow>
          let image = opened\<lparr>pixels := convert_RGB (pixels opened)\<rparr>;
              translated_path = str_replace path root' target_root;
              ow = fst (img_size image);
              oh = snd (img_size image)
          in case make_power_2 rs image image_base BICUBIC of
               Inl e \<Rightarrow> Inl e
             | Inr image' \<Rightarrow>
                 (case resize rs (tr image') (ow, oh) DEFAULT_RESAMPLE of
                    Inl e \<Rightarrow> Inl e
                  | Inr translated_image \<Rightarrow>
                      if dirname translated_path = [] then Inl FileNotFoundError
                      else
                        translate_loop rs convert_RGB tr root' target_root image_base rest
                          (fs\<lparr>files := (files fs)(translated_path \<mapsto> translated_image),
                              written := written fs @
                                [Makedirs (dirname translated_path), Save translated_path]\<rparr>)))"

definition translate ::
  "('px \<Rightarrow> int \<times> int \<Rightarrow> int \<times> int \<Rightarrow> resample_method \<Rightarrow> 'px) \<Rightarrow> ('px \<Rightarrow> 'px) \<Rightarrow>
   'a VOCImageFolder \<Rightarrow> ('px image \<Rightarrow> 'px image) \<Rightarrow> string \<Rightarrow> int \<Rightarrow> 'px fs \<Rightarrow>
   error + 'px fs" where
  "translate rs convert_RGB self tr target_root image_base fs =
     (if target_root = [] then Inl FileNotFoundError
      else
        translate_loop rs convert_RGB tr (root_dir self) target_root image_base (samples self)
          (fs\<lparr>written := written fs @ [Makedirs target_root]\<rparr>))"

section \<open>\<open>build_dataset\<close> and the dataset arguments of \<open>main\<close>\<close>

text \<open>
  \<open>torch.utils.data.ConcatDataset\<close>: the list of datasets and their cumulative sizes;
  its constructor asserts that the list is not empty; its length is the last cumulative
  size.
\<close>

record 'a ConcatDataset =
  datasets :: "'a VOCImageFolder list"
  cumulative_sizes :: "int list"

fun cumsum :: "int \<Rightarrow> 'a VOCImageFolder list \<Rightarrow> int list" where
  "cumsum s [] = []"
| "cumsum s (e # es) = (len e + s) # cumsum (s + len e) es"

definition ConcatDataset_init :: "'a VOCImageFolder list \<Rightarrow> error + 'a ConcatDataset" where
  "ConcatDataset_init ds =
     (if \<not> 0 < length ds then Inl AssertionError
      else Inr \<lparr>datasets = ds, cumulative_sizes = cumsum 0 ds\<rparr>)"

definition concat_len :: "'a ConcatDataset \<Rightarrow> int" where
  "concat_len cd = last (cumulative_sizes cd)"

fun build_dataset_loop ::
  "(string \<rightharpoonup> string) \<Rightarrow> ('a \<Rightarrow> 'a) \<Rightarrow> 'a VOCImageFolder list \<Rightarrow> (string \<times> string) list \<Rightarrow>
   error + 'a VOCImageFolder list" where
  "build_dataset_loop texts tr dataset_lists [] = Inr dataset_lists"
| "build_dataset_loop texts tr dataset_lists ((dataset_name, root') # rest) =
     (case (if dataset_name \<in> set [''WaterColor'', ''Comic'']
            then VOCImageFolder_init texts root' ''train'' (Some tr) (Some ''.jpg'')
            else if dataset_name \<in> set [''Cityscapes'', ''FoggyCityscapes'']
            then VOCImageFolder_init texts root' ''trainval'' (Some tr) (Some ''.png'')
            else if dataset_name \<in> set [''Sim10k'']
            then VOCImageFolder_init texts root' ''trainval10k'' (Some tr) (Some ''.jpg'')
            else VOCImageFolder_init texts root' ''trainval'' (Some tr) (Some ''.jpg'')) of
        Inl e \<Rightarrow> Inl e
      | Inr dataset \<Rightarrow> build_dataset_loop texts tr (dataset_lists @ [dataset]) rest)"

definition build_dataset ::
  "(string \<rightharpoonup> string) \<Rightarrow> string list \<Rightarrow> string list \<Rightarrow> ('a \<Rightarrow> 'a) \<Rightarrow> error + 'a ConcatDataset" where
  "build_dataset texts dataset_names dataset_roots tr =
     (case build_dataset_loop texts tr [] (zip dataset_names dataset_roots) of
        Inl e \<Rightarrow> Inl e
      | Inr dataset_lists \<Rightarrow> ConcatDataset_init dataset_lists)"

text \<open>
  The slices \<open>xs[::2]\<close> and \<open>xs[1::2]\<close> that \<open>main\<close> takes of \<open>args.source\<close> and of
  \<open>args.target\<close>, and the dataset it builds from either.
\<close>

fun slice_even :: "'a list \<Rightarrow> 'a list" and slice_odd :: "'a list \<Rightarrow> 'a list" where
  "slice_even [] = []"
| "slice_even (x # xs) = x # slice_odd xs"
| "slice_odd [] = []"
| "slice_odd (x # xs) = slice_even xs"

definition main_build_dataset ::
  "(string \<rightharpoonup> string) \<Rightarrow> string list \<Rightarrow> ('a \<Rightarrow> 'a) \<Rightarrow> error + 'a ConcatDataset" where
  "main_build_dataset texts domains train_transform =
     build_dataset texts (slice_even domains) (slice_odd domains) train_transform"

section \<open>The training loop\<close>

text \<open>
  What \<open>train\<close> and \<open>main\<close> do to the networks, optimizers and files is recorded as a
  sequence of events, in the order of the calls.
\<close>

datatype net = NetG_S2T | NetG_T2S | NetD_S | NetD_T

datatype optim = Optimizer_G | Optimizer_D

datatype loss_id = Loss_G | Loss_D_S | Loss_D_T

datatype event =
    Set_requires_grad net bool
  | Zero_grad optim
  | Backward loss_id "net list"
  | Step optim
  | Display int
  | Visualize int string
  | Set_epoch int
  | Call_train int
  | Scheduler_step optim
  | Torch_save string

text \<open>
  The command-line arguments that the training code reads.
\<close>

record args =
  iters_per_epoch :: int
  print_freq :: int
  trade_off_cycle :: real
  trade_off_identity :: real
  epochs :: int
  epochs_decay :: int
  start_epoch :: int
  resume :: "string option"
  phase :: string

text \<open>
  The framework, as parameters: the forward pass of a generator and of a discriminator
  from its parameters \<open>'n\<close>, the data iterators, the image pool, the Adam step of each
  optimizer, the learning-rate scheduler, and the two loss criteria that \<open>main\<close> creates.
  An Adam step is given the optimizer's state, the networks that received a gradient, the
  loss as a function of the parameters it was back-propagated to, and the parameters; it
  returns the new parameters and optimizer state. A scheduler is built from an optimizer
  and the value of its \<open>lr_lambda\<close> at epoch 0; it has an epoch counter, and its step is
  given the value of \<open>lr_lambda\<close> at the next epoch; both give the optimizer its new
  learning rate. Floats are reals.
\<close>

record ('n, 'o, 's, 'i, 'p, 'it, 'pl) torch =
  forward_G :: "'n \<Rightarrow> 'i \<Rightarrow> 'i"
  forward_D :: "'n \<Rightarrow> 'i \<Rightarrow> 'p"
  next_batch :: "'it \<Rightarrow> 'i \<times> 'it"
  size0 :: "'i \<Rightarrow> nat"
  pool_query :: "'pl \<Rightarrow> 'i \<Rightarrow> 'i \<times> 'pl"
  adam_G :: "'o \<Rightarrow> net list \<Rightarrow> ('n \<times> 'n \<Rightarrow> real) \<Rightarrow> 'n \<times> 'n \<Rightarrow> ('n \<times> 'n) \<times> 'o"
  adam_D :: "'o \<Rightarrow> net list \<Rightarrow> ('n \<Rightarrow> real) \<Rightarrow> ('n \<Rightarrow> real) \<Rightarrow> 'n \<times> 'n \<Rightarrow> ('n \<times> 'n) \<times> 'o"
  LambdaLR :: "'o \<Rightarrow> real \<Rightarrow> 's \<times> 'o"
  scheduler_epoch :: "'s \<Rightarrow> int"
  scheduler_step :: "'s \<Rightarrow> real \<Rightarrow> 'o \<Rightarrow> 's \<times> 'o"
  LeastSquaresGenerativeAdversarialLoss :: "'p \<Rightarrow> bool \<Rightarrow> real"
  L1Loss :: "'i \<Rightarrow> 'i \<Rightarrow> real"

text \<open>
  A checkpoint (the dictionary that \<open>main\<close> saves), and the state of the program: the
  objects that \<open>main\<close> creates and \<open>train\<close> updates, the checkpoint files, the events so
  far, and the exception raised, if any.
\<close>

record ('n, 'o, 's) checkpoint =
  ck_netG_S2T :: 'n
  ck_netG_T2S :: 'n
  ck_netD_S :: 'n
  ck_netD_T :: 'n
  ck_optimizer_G :: 'o
  ck_optimizer_D :: 'o
  ck_lr_scheduler_G :: 's
  ck_lr_scheduler_D :: 's
  ck_epoch :: int
  ck_args :: args

record ('n, 'o, 's, 'it, 'pl) state =
  netG_S2T :: 'n
  netG_T2S :: 'n
  netD_S :: 'n
  netD_T :: 'n
  optimizer_G :: 'o
  optimizer_D :: 'o
  lr_scheduler_G :: 's
  lr_scheduler_D :: 's
  requires_grad :: "net \<Rightarrow> bool"
  train_source_iter :: 'it
  train_target_iter :: 'it
  fake_S_pool :: 'pl
  fake_T_pool :: 'pl
  checkpoints :: "string \<rightharpoonup> ('n, 'o, 's) checkpoint"
  log :: "event list"
  raised :: "error option"

text \<open>
  Modelled from the spec: \<open>set_requires_grad\<close> (of \<open>dalib.translation.cyclegan.util\<close>) is
  not among the sources; it sets \<open>requires_grad\<close> of a network's parameters.
\<close>

definition set_requires_grad ::
  "net \<Rightarrow> bool \<Rightarrow> ('n, 'o, 's, 'it, 'pl) state \<Rightarrow> ('n, 'o, 's, 'it, 'pl) state" where
  "set_requires_grad n b st =
     st\<lparr>requires_grad := (requires_grad st)(n := b), log := log st @ [Set_requires_grad n b]\<rparr>"

text \<open>
  \<open>loss.backward()\<close>: of the networks in the graph of the loss, those whose parameters
  require gradients receive one.
\<close>

definition backward ::
  "loss_id \<Rightarrow> net list \<Rightarrow> ('n, 'o, 's, 'it, 'pl) state \<Rightarrow> ('n, 'o, 's, 'it, 'pl) state" where
  "backward l graph st = st\<lparr>log := log st @ [Backward l (filter (requires_grad st) graph)]\<rparr>"

text \<open>\<open>tensor.detach()\<close>: the same values, outside the graph.\<close>

definition detach :: "'i \<Rightarrow> 'i" where
  "detach x = x"

text \<open>
  The local variables of one iteration of \<open>train\<close>. \<open>fake_S_'\<close> and \<open>fake_T_'\<close> are the
  source's \<open>fake_S_\<close> and \<open>fake_T_\<close>.
\<close>

record 'i locals =
  real_S :: 'i
  real_T :: 'i
  fake_T :: 'i
  rec_S :: 'i
  fake_S :: 'i
  rec_T :: 'i
  identity_T :: 'i
  identity_S :: 'i
  fake_S_' :: 'i
  fake_T_' :: 'i
  loss_G_S2T :: real
  loss_G_T2S :: real
  loss_cycle_S :: real
  loss_cycle_T :: real
  loss_identity_T :: real
  loss_identity_S :: real
  loss_G :: real
  loss_D_S :: real
  loss_D_T :: real

text \<open>
  The generator part of an iteration (lines 274 to 301 of \<open>cycle_gan.py\<close>) as a function
  of the two generators' parameters: \<open>loss_G.backward()\<close> differentiates it in them.
  The discriminator fields are filled in later.
\<close>

definition generator_pass ::
  "('n, 'o, 's, 'i, 'p, 'it, 'pl) torch \<Rightarrow> ('p \<Rightarrow> bool \<Rightarrow> real) \<Rightarrow> ('i \<Rightarrow> 'i \<Rightarrow> real) \<Rightarrow>
   ('i \<Rightarrow> 'i \<Rightarrow> real) \<Rightarrow> args \<Rightarrow> 'n \<Rightarrow> 'n \<Rightarrow> 'i \<Rightarrow> 'i \<Rightarrow> 'n \<times> 'n \<Rightarrow> 'i locals" where
  "generator_pass T criterion_gan criterion_cycle criterion_identity args d_S d_T rS rT g =
     (let g_S2T = fst g; g_T2S = snd g;
          fake_T = forward_G T g_S2T rS;
          rec_S = forward_G T g_T2S fake_T;
          fake_S = forward_G T g_T2S rT;
          rec_T = forward_G T g_S2T fake_S;
          loss_G_S2T = criterion_gan (forward_D T d_T fake_T) True;
          loss_G_T2S = criterion_gan (forward_D T d_S fake_S) True;
          loss_cycle_S = criterion_cycle rec_S rS * trade_off_cycle args;
          loss_cycle_T = criterion_cycle rec_T rT * trade_off_cycle args;
          identity_T = forward_G T g_S2T rT;
          loss_identity_T = criterion_identity identity_T rT * trade_off_identity args;
          identity_S = forward_G T g_T2S rS;
          loss_identity_S = criterion_identity identity_S rS * trade_off_identity args;
          loss_G = loss_G_S2T + loss_G_T2S + loss_cycle_S + loss_cycle_T
                     + loss_identity_S + loss_identity_T
      in \<lparr>real_S = rS, real_T = rT, fake_T = fake_T, rec_S = rec_S, fake_S = fake_S,
          rec_T = rec_T, identity_T = identity_T, identity_S = identity_S,
          fake_S_' = fake_S, fake_T_' = fake_T,
          loss_G_S2T = loss_G_S2T, loss_G_T2S = loss_G_T2S,
          loss_cycle_S = loss_cycle_S, loss_cycle_T = loss_cycle_T,
          loss_identity_T = loss_identity_T, loss_identity_S = loss_identity_S,
          loss_G = loss_G, loss_D_S = 0, loss_D_T = 0\<rparr>)"

text \<open>
  The loss of a discriminator (lines 311 and 315) as a function of its parameters.
\<close>

definition discriminator_loss ::
  "('n, 'o, 's, 'i, 'p, 'it, 'pl) torch \<Rightarrow> ('p \<Rightarrow> bool \<Rightarrow> real) \<Rightarrow> 'i \<Rightarrow> 'i \<Rightarrow> 'n \<Rightarrow> real" where
  "discriminator_loss T criterion_gan real_batch fake_batch d =
     0.5 * (criterion_gan (forward_D T d real_batch) True
            + criterion_gan (forward_D T d fake_batch) False)"

text \<open>
  One iteration of the loop of \<open>train\<close>, up to \<open>optimizer_D.step()\<close> (lines 264 to 317):
  the local variables and the new state.
\<close>

definition train_body ::
  "('n, 'o, 's, 'i, 'p, 'it, 'pl) torch \<Rightarrow> ('p \<Rightarrow> bool \<Rightarrow> real) \<Rightarrow> ('i \<Rightarrow> 'i \<Rightarrow> real) \<Rightarrow>
   ('i \<Rightarrow> 'i \<Rightarrow> real) \<Rightarrow> args \<Rightarrow> ('n, 'o, 's, 'it, 'pl) state \<Rightarrow>
   'i locals \<times> ('n, 'o, 's, 'it, 'pl) state" where
  "train_body T criterion_gan criterion_cycle criterion_identity args st0 =
     (let (rS, it_S) = next_batch T (train_source_iter st0);
          (rT, it_T) = next_batch T (train_target_iter st0);
          st1 = st0\<lparr>train_source_iter := it_S, train_target_iter := it_T\<rparr>;
          st2 = set_requires_grad NetD_T False (set_requires_grad NetD_S False st1);
          st3 = st2\<lparr>log := log st2 @ [Zero_grad Optimizer_G]\<rparr>;
          G = generator_pass T criterion_gan criterion_cycle criterion_identity args
                (netD_S st3) (netD_T st3) rS rT;
          v = G (netG_S2T st3, netG_T2S st3);
          st4 = backward Loss_G [NetG_S2T, NetG_T2S, NetD_S, NetD_T] st3;
          ((g_S2T, g_T2S), o_G) =
            adam_G T (optimizer_G st4) (filter (requires_grad st4) [NetG_S2T, NetG_T2S])
              (\<lambda>g. loss_G (G g)) (netG_S2T st4, netG_T2S st4);
          st5 = st4\<lparr>netG_S2T := g_S2T, netG_T2S := g_T2S, optimizer_G := o_G,
                    log := log st4 @ [Step Optimizer_G]\<rparr>;
          st6 = set_requires_grad NetD_T True (set_requires_grad NetD_S True st5);
          st7 = st6\<lparr>log := log st6 @ [Zero_grad Optimizer_D]\<rparr>;
          (fS, pool_S) = pool_query T (fake_S_pool st7) (detach (fake_S v));
          st8 = st7\<lparr>fake_S_pool := pool_S\<rparr>;
          D_S = discriminator_loss T criterion_gan rS fS;
          st9 = backward Loss_D_S [NetD_S] st8;
          (fT, pool_T) = pool_query T (fake_T_pool st9) (detach (fake_T v));
          st10 = st9\<lparr>fake_T_pool := pool_T\<rparr>;
          D_T = discriminator_loss T criterion_gan rT fT;
          st11 = backward Loss_D_T [NetD_T] st10;
          ((d_S, d_T), o_D) =
            adam_D T (optimizer_D st11) (filter (requires_grad st11) [NetD_S, NetD_T])
              D_S D_T (netD_S st11, netD_T st11);
          st12 = st11\<lparr>netD_S := d_S, netD_T := d_T, optimizer_D := o_D,
                      log := log st11 @ [Step Optimizer_D]\<rparr>
      in (v\<lparr>fake_S_' := fS, fake_T_' := fT,
            loss_D_S := D_S (netD_S st8), loss_D_T := D_T (netD_T st10)\<rparr>, st12))"

text \<open>
  Modelled from the spec: the class \<open>AverageMeter\<close> (of \<open>common.utils.meter\<close>) is not among
  the sources; it keeps the last value, the sum of the values weighted by their counts,
  the count, and their quotient, the running average.
\<close>

record meter =
  m_val :: real
  m_avg :: real
  m_sum :: real
  m_count :: nat

definition AverageMeter :: meter where
  "AverageMeter = \<lparr>m_val = 0, m_avg = 0, m_sum = 0, m_count = 0\<rparr>"

definition update :: "meter \<Rightarrow> real \<Rightarrow> nat \<Rightarrow> meter" where
  "update m v n =
     (let s = m_sum m + v * real n; c = m_count m + n
      in \<lparr>m_val = v, m_avg = (if 0 < c then s / real c else m_avg m), m_sum = s, m_count = c\<rparr>)"

record meters =
  losses_G_S2T :: meter
  losses_G_T2S :: meter
  losses_D_S :: meter
  losses_D_T :: meter
  losses_cycle_S :: meter
  losses_cycle_T :: meter
  losses_identity_S :: meter
  losses_identity_T :: meter

definition new_meters :: meters where
  "new_meters = \<lparr>losses_G_S2T = AverageMeter, losses_G_T2S = AverageMeter,
       losses_D_S = AverageMeter, losses_D_T = AverageMeter,
       losses_cycle_S = AverageMeter, losses_cycle_T = AverageMeter,
       losses_identity_S = AverageMeter, losses_identity_T = AverageMeter\<rparr>"

text \<open>
  The end of an iteration (lines 320 to 337): the eight meters are updated with the
  losses and the size of the source batch, and every \<open>print_freq\<close> iterations the progress
  is displayed and eight images are saved. The timers are left out. \<open>i % 0\<close> raises.
\<close>

definition update_meters :: "meters \<Rightarrow> 'i locals \<Rightarrow> nat \<Rightarrow> meters" where
  "update_meters ms v n =
     \<lparr>losses_G_S2T = update (losses_G_S2T ms) (loss_G_S2T v) n,
      losses_G_T2S = update (losses_G_T2S ms) (loss_G_T2S v) n,
      losses_D_S = update (losses_D_S ms) (loss_D_S v) n,
      losses_D_T = update (losses_D_T ms) (loss_D_T v) n,
      losses_cycle_S = update (losses_cycle_S ms) (loss_cycle_S v) n,
      losses_cycle_T = update (losses_cycle_T ms) (loss_cycle_T v) n,
      losses_identity_S = update (losses_identity_S ms) (loss_identity_S v) n,
      losses_identity_T = update (losses_identity_T ms) (loss_identity_T v) n\<rparr>"

definition train_iteration ::
  "('n, 'o, 's, 'i, 'p, 'it, 'pl) torch \<Rightarrow> ('p \<Rightarrow> bool \<Rightarrow> real) \<Rightarrow> ('i \<Rightarrow> 'i \<Rightarrow> real) \<Rightarrow>
   ('i \<Rightarrow> 'i \<Rightarrow> real) \<Rightarrow> args \<Rightarrow> int \<Rightarrow> meters \<times> ('n, 'o, 's, 'it, 'pl) state \<Rightarrow>
   meters \<times> ('n, 'o, 's, 'it, 'pl) state" where
  "train_iteration T criterion_gan criterion_cycle criterion_identity args i x =
     (let (v, st) = train_body T criterion_gan criterion_cycle criterion_identity args (snd x);
          ms = update_meters (fst x) v (size0 T (real_S v))
      in if print_freq args = 0 then (ms, st\<lparr>raised := Some ZeroDivisionError\<rparr>)
         else if i mod print_freq args = 0
         then (ms, st\<lparr>log := log st @ Display i #
                 map (Visualize i) [''real_S'', ''real_T'', ''fake_S'', ''fake_T'', ''rec_S'',
                                    ''rec_T'', ''identity_S'', ''identity_T'']\<rparr>)
         else (ms, st))"

text \<open>
  The loop \<open>for i in range(args.iters_per_epoch)\<close>, with \<open>k\<close> iterations left; an exception
  ends it. \<open>train\<close> creates its meters and runs the loop; the meters are returned with
  the state, to be observed.
\<close>

fun train_loop ::
  "('n, 'o, 's, 'i, 'p, 'it, 'pl) torch \<Rightarrow> ('p \<Rightarrow> bool \<Rightarrow> real) \<Rightarrow> ('i \<Rightarrow> 'i \<Rightarrow> real) \<Rightarrow>
   ('i \<Rightarrow> 'i \<Rightarrow> real) \<Rightarrow> args \<Rightarrow> int \<Rightarrow> nat \<Rightarrow> meters \<times> ('n, 'o, 's, 'it, 'pl) state \<Rightarrow>
   meters \<times> ('n, 'o, 's, 'it, 'pl) state" where
  "train_loop T criterion_gan criterion_cycle criterion_identity args i 0 x = x"
| "train_loop T criterion_gan criterion_cycle criterion_identity args i (Suc k) x =
     (if raised (snd x) \<noteq> None then x
      else train_loop T criterion_gan criterion_cycle criterion_identity args (i + 1) k
             (train_iteration T criterion_gan criterion_cycle criterion_identity args i x))"

definition train ::
  "('n, 'o, 's, 'i, 'p, 'it, 'pl) torch \<Rightarrow> ('p \<Rightarrow> bool \<Rightarrow> real) \<Rightarrow> ('i \<Rightarrow> 'i \<Rightarrow> real) \<Rightarrow>
   ('i \<Rightarrow> 'i \<Rightarrow> real) \<Rightarrow> int \<Rightarrow> args \<Rightarrow> ('n, 'o, 's, 'it, 'pl) state \<Rightarrow>
   meters \<times> ('n, 'o, 's, 'it, 'pl) state" where
  "train T criterion_gan criterion_cycle criterion_identity epoch args st =
     train_loop T criterion_gan criterion_cycle criterion_identity args 0
       (nat (iters_per_epoch args)) (new_meters, st)"

section \<open>The schedulers and the epochs of \<open>main\<close>\<close>










section \<open>The claims' own words, as definitions\<close>

text \<open>
  The entry that the specification gives for one line of the data list file: the line
  stripped, the extension appended when there is one, and \<open>root/JPEGImages\<close> put in front
  of a path that is not absolute.
\<close>

definition data_list_entry :: "string \<Rightarrow> string option \<Rightarrow> string \<Rightarrow> string" where
  "data_list_entry r extension line = (let path = strip line @ (case extension of None \<Rightarrow> [] | Some e \<Rightarrow> e)
           in if isabs path then path
              else r @ (if r = [] \<or> last r = CHR ''/'' then [] else ''/'')
                     @ ''JPEGImages/'' @ path)"

text \<open>
  The phase and the extension that the specification gives for a dataset name, the dataset
  built for a pair of a name and a root with that choice, and whether that dataset's data
  list file exists.
\<close>

definition dataset_choice :: "string \<Rightarrow> string \<times> string" where
  "dataset_choice name =
     (if name = ''WaterColor'' \<or> name = ''Comic'' then (''train'', ''.jpg'')
      else if name = ''Cityscapes'' \<or> name = ''FoggyCityscapes'' then (''trainval'', ''.png'')
      else if name = ''Sim10k'' then (''trainval10k'', ''.jpg'')
      else (''trainval'', ''.jpg''))"

definition chosen_dataset ::
  "(string \<rightharpoonup> string) \<Rightarrow> ('a \<Rightarrow> 'a) \<Rightarrow> string \<times> string \<Rightarrow> error + 'a VOCImageFolder" where
  "chosen_dataset texts tr p =
     VOCImageFolder_init texts (snd p) (fst (dataset_choice (fst p))) (Some tr)
       (Some (snd (dataset_choice (fst p))))"

definition list_file_exists :: "(string \<rightharpoonup> string) \<Rightarrow> string \<times> string \<Rightarrow> bool" where
  "list_file_exists texts p =
     (texts (path_join (snd p) [''ImageSets/Main/'' @ fst (dataset_choice (fst p)) @ ''.txt'']) \<noteq> None)"





text \<open>
  The local variables of iteration \<open>j\<close> of a call of \<open>train\<close> on the state \<open>st\<close>; the
  running average of the values \<open>f 0, \<dots>, f k\<close> weighted by the counts \<open>n 0, \<dots>, n k\<close>;
  and what a meter holds after \<open>j\<close> updates with these values and counts.
\<close>

definition iteration_locals ::
  "('n, 'o, 's, 'i, 'p, 'it, 'pl) torch \<Rightarrow> ('p \<Rightarrow> bool \<Rightarrow> real) \<Rightarrow> ('i \<Rightarrow> 'i \<Rightarrow> real) \<Rightarrow>
   ('i \<Rightarrow> 'i \<Rightarrow> real) \<Rightarrow> args \<Rightarrow> ('n, 'o, 's, 'it, 'pl) state \<Rightarrow> nat \<Rightarrow> 'i locals" where
  "iteration_locals T cg cc ci args st j =
     fst (train_body T cg cc ci args (snd (train_loop T cg cc ci args 0 j (new_meters, st))))"

definition weighted_average :: "(nat \<Rightarrow> real) \<Rightarrow> (nat \<Rightarrow> nat) \<Rightarrow> nat \<Rightarrow> real" where
  "weighted_average f n k = (\<Sum>j\<le>k. f j * real (n j)) / real (\<Sum>j\<le>k. n j)"

definition meter_of :: "meter \<Rightarrow> (nat \<Rightarrow> real) \<Rightarrow> (nat \<Rightarrow> nat) \<Rightarrow> nat \<Rightarrow> bool" where
  "meter_of m f n j =
     (m_sum m = (\<Sum>i<j. f i * real (n i)) \<and> m_count m = (\<Sum>i<j. n i)
      \<and> m_avg m = (if 0 < m_count m then m_sum m / real (m_count m) else 0))"




section \<open>A small instance\<close>

text \<open>
  Networks, optimizers, schedulers, iterators and pools are numbers, and a batch is a
  real number; the instance serves to run the definitions on concrete values.
\<close>

definition example_torch :: "(nat, nat, nat, real, real, nat, nat) torch" where
  "example_torch =
     \<lparr>forward_G = (\<lambda>n i. real n * i), forward_D = (\<lambda>n i. real n + i),
      next_batch = (\<lambda>it. (real it, it + 1)), size0 = (\<lambda>i. 2),
      pool_query = (\<lambda>pl i. (i + real pl, pl + 1)),
      adam_G = (\<lambda>opt ns f g. ((fst g + 1, snd g + 1), opt + 1)),
      adam_D = (\<lambda>opt ns f h d. ((fst d + 1, snd d + 1), opt + 1)),
      LambdaLR = (\<lambda>opt f. (0, opt)), scheduler_epoch = (\<lambda>s. int s),
      scheduler_step = (\<lambda>s f opt. (s + 1, opt)),
      LeastSquaresGenerativeAdversarialLoss = (\<lambda>p b. if b then (p - 1) * (p - 1) else p * p),
      L1Loss = (\<lambda>a b. \<bar>a - b\<bar>)\<rparr>"

definition example_state :: "(nat, nat, nat, nat, nat) state" where
  "example_state =
     \<lparr>netG_S2T = 1, netG_T2S = 2, netD_S = 3, netD_T = 4, optimizer_G = 0, optimizer_D = 0,
      lr_scheduler_G = 0, lr_scheduler_D = 0, requires_grad = (\<lambda>n. True),
      train_source_iter = 1, train_target_iter = 2, fake_S_pool = 0, fake_T_pool = 0,
      checkpoints = Map.empty, log = [], raised = None\<rparr>"

definition example_args :: args where
  "example_args =
     \<lparr>iters_per_epoch = 2, print_freq = 1, trade_off_cycle = 10, trade_off_identity = 5,
      epochs = 1, epochs_decay = 1, start_epoch = 0, resume = None, phase = ''train''\<rparr>"



section \<open>Properties of \<open>make_power_2\<close>\<close>

lemma py_round_div_multiple:
  assumes "0 < b"
  shows "py_round_div (k * b) b = k"
  using assms by (simp add: py_round_div_def Let_def)

lemma py_round_div_nearest:
  assumes "0 < b"
  shows "\<bar>2 * (py_round_div a b * b) - 2 * a\<bar> \<le> b"
proof -
  have eq: "a = (a div b) * b + a mod b" by simp
  have r0: "0 \<le> a mod b" and r1: "a mod b < b" using assms by simp_all
  define q where "q = a div b"
  define r where "r = a mod b"
  have a: "a = q * b + r" unfolding q_def r_def by simp
  have "0 \<le> r" "r < b" using r0 r1 unfolding r_def by simp_all
  then show ?thesis
    using assms unfolding py_round_div_def Let_def q_def[symmetric] r_def[symmetric]
    by (auto simp: a algebra_simps abs_if)
qed

lemma max_round_multiple:
  assumes "0 < b" "0 < x" "b dvd x"
  shows "max (py_round_div x b) 1 * b = x"
proof -
  from assms(3) obtain k where k: "x = k * b" by (auto simp: dvd_def mult.commute)
  with assms have "0 < k" by (simp add: zero_less_mult_iff)
  then show ?thesis using assms k by (simp add: py_round_div_multiple)
qed

lemma max_round_pos:
  assumes "0 < b"
  shows "0 < max (py_round_div x b) 1 * b"
  using assms by simp

text \<open>
  C8. For an image of positive width \<open>ow\<close> and height \<open>oh\<close> and a positive \<open>base\<close>,
  \<open>make_power_2\<close> returns an image of width \<open>max(round(ow/base), 1) * base\<close> and height
  \<open>max(round(oh/base), 1) * base\<close>, both positive multiples of \<open>base\<close>; when \<open>ow\<close> and
  \<open>oh\<close> are multiples of \<open>base\<close> already, it returns the input image itself; and applying
  it to its own result with the same base returns that result again.
\<close>

theorem make_power_2_idempotent:
  assumes "img_size img = (ow, oh)" and "0 < ow" and "0 < oh" and "0 < base"
  shows "\<exists>img'. make_power_2 rs img base method = Inr img'
           \<and> img_size img' = (max (py_round_div ow base) 1 * base,
                              max (py_round_div oh base) 1 * base)
           \<and> 0 < fst (img_size img') \<and> base dvd fst (img_size img')
           \<and> 0 < snd (img_size img') \<and> base dvd snd (img_size img')
           \<and> (base dvd ow \<and> base dvd oh \<longrightarrow> img' = img)
           \<and> make_power_2 rs img' base method = Inr img'"
proof -
  define w where "w = max (py_round_div ow base) 1 * base"
  define h where "h = max (py_round_div oh base) 1 * base"
  have wpos: "0 < w" and hpos: "0 < h"
    unfolding w_def h_def using assms(4) by (simp_all add: max_round_pos)
  have wdvd: "base dvd w" and hdvd: "base dvd h"
    unfolding w_def h_def by simp_all
  have fixw: "max (py_round_div w base) 1 * base = w"
    using max_round_multiple[OF assms(4) wpos wdvd] .
  have fixh: "max (py_round_div h base) 1 * base = h"
    using max_round_multiple[OF assms(4) hpos hdvd] .
  have again: "make_power_2 rs i base method = Inr i" if "img_size i = (w, h)" for i :: "'a image"
    using that assms(4) fixw fixh by (simp add: make_power_2_def Let_def)
  show ?thesis
  proof (cases "h = oh \<and> w = ow")
    case True
    then have "make_power_2 rs img base method = Inr img"
      using assms by (simp add: make_power_2_def Let_def w_def h_def)
    moreover have "img_size img = (w, h)" using True assms(1) by simp
    ultimately show ?thesis
      using wpos hpos wdvd hdvd again[of img] by (simp add: w_def h_def)
  next
    case False
    define img' where "img' = \<lparr>img_size = (w, h),
        pixels = rs (pixels img) (img_size img) (w, h) method\<rparr>"
    have rz: "resize rs img (w, h) method = Inr img'"
      using wpos hpos by (simp add: resize_def img'_def)
    have "make_power_2 rs img base method = resize rs img (w, h) method"
      using False assms(1,4) unfolding make_power_2_def Let_def w_def h_def by auto
    with rz have r: "make_power_2 rs img base method = Inr img'" by simp
    have sz: "img_size img' = (w, h)" by (simp add: img'_def)
    have notmult: "\<not> (base dvd ow \<and> base dvd oh)"
    proof
      assume "base dvd ow \<and> base dvd oh"
      then have "w = ow" "h = oh"
        unfolding w_def h_def using assms by (simp_all add: max_round_multiple)
      with False show False by simp
    qed
    show ?thesis
      using r sz notmult wpos hpos wdvd hdvd again[OF sz] by (auto simp: w_def h_def)
  qed
qed

theorem make_power_2_idempotent_witness:
  "\<exists>img'. make_power_2 (\<lambda>p a b m. p + 1) \<lparr>img_size = (10, 6), pixels = (0::nat)\<rparr> 4 BICUBIC = Inr img'
     \<and> img_size img' = (8, 8)
     \<and> make_power_2 (\<lambda>p a b m. p + 1) img' 4 BICUBIC = Inr img'"
proof -
  have s: "img_size \<lparr>img_size = (10, 6), pixels = (0::nat)\<rparr> = (10, 6)" by simp
  have r: "max (py_round_div 10 4) 1 * 4 = (8::int)" "max (py_round_div 6 4) 1 * 4 = (8::int)"
    by (simp_all add: py_round_div_def Let_def)
  show ?thesis
    using make_power_2_idempotent[OF s, of 4 "\<lambda>p a b m. p + 1" BICUBIC] r by auto
qed

section \<open>Properties of the dataset class\<close>

lemma readlines_Nil_iff: "readlines s = [] \<longleftrightarrow> s = []"
  by (cases s) (auto split: list.splits)

lemma concat_readlines: "concat (readlines s) = s"
  by (induction s) (auto split: list.splits)

lemma length_readlines_step:
  "c \<noteq> CHR 0x0A \<Longrightarrow>
   length (readlines (c # cs)) = (if cs = [] then 1 else length (readlines cs))"
  by (cases "readlines cs") (auto simp: readlines_Nil_iff)

lemma length_readlines:
  "length (readlines s) =
     length (filter (\<lambda>c. c = CHR 0x0A) s) + (if s = [] \<or> last s = CHR 0x0A then 0 else 1)"
proof (induction s)
  case Nil
  then show ?case by simp
next
  case (Cons c cs)
  show ?case
  proof (cases "c = CHR 0x0A")
    case True
    then show ?thesis using Cons by simp
  next
    case False
    then show ?thesis using Cons
      by (simp only: length_readlines_step[OF False]) auto
  qed
qed

lemma join_JPEGImages:
  "\<not> isabs path \<Longrightarrow>
   path_join r [''JPEGImages'', path] =
     r @ (if r = [] \<or> last r = CHR ''/'' then [] else ''/'') @ ''JPEGImages/'' @ path"
  by (simp add: path_join_def join2_def isabs_def)

lemma parse_lines_map:
  "parse_lines r extension acc ls = acc @ map (data_list_entry r extension) ls"
  by (induction ls arbitrary: acc) (auto simp: Let_def join_JPEGImages data_list_entry_def split: option.splits)

text \<open>
  C6. \<open>parse_data_file\<close> returns one entry for each line of the data list file, in the
  order of the file: the line stripped of surrounding whitespace, with the extension
  appended when there is one, and with \<open>root/JPEGImages\<close> in front when the path so far
  is not absolute. Hence the length of the dataset is the number of lines of the file.
\<close>

theorem parse_data_file_lines:
  assumes "texts file_name = Some content"
  shows "parse_data_file texts r file_name extension
           = Inr (map (data_list_entry r extension) (readlines content))
       \<and> (file_name = path_join r [''ImageSets/Main/'' @ ph @ ''.txt''] \<longrightarrow>
            (\<exists>ds. VOCImageFolder_init texts r ph tr extension = Inr ds
                \<and> samples ds = map (data_list_entry r extension) (readlines content)
                \<and> len ds = int (length (readlines content))))"
  using assms
  by (auto simp: parse_data_file_def parse_lines_map VOCImageFolder_init_def Let_def len_def)

theorem parse_data_file_lines_witness:
  "parse_data_file [''data/ImageSets/Main/train.txt'' \<mapsto> ''a'' @ [CHR 0x0A] @ '' /b '' @ [CHR 0x0A]]
      ''data'' ''data/ImageSets/Main/train.txt'' (Some ''.jpg'')
     = Inr [''data/JPEGImages/a.jpg'', ''/b.jpg'']"
proof -
  let ?txt = "[''data/ImageSets/Main/train.txt'' \<mapsto> ''a'' @ [CHR 0x0A] @ '' /b '' @ [CHR 0x0A]]"
  have h: "?txt ''data/ImageSets/Main/train.txt'' = Some (''a'' @ [CHR 0x0A] @ '' /b '' @ [CHR 0x0A])"
    by simp
  show ?thesis
    using h parse_data_file_lines[where texts = "?txt" and file_name = "''data/ImageSets/Main/train.txt''"
        and content = "''a'' @ [CHR 0x0A] @ '' /b '' @ [CHR 0x0A]" and r = "''data''"
        and extension = "Some ''.jpg''" and ph = "''train''"
        and tr = "None :: (nat \<Rightarrow> nat) option"]
    by (simp add: data_list_entry_def strip_def is_space_def isabs_def)
qed

text \<open>
  What \<open>__getitem__\<close> returns for an index \<open>0 \<le> index < len(dataset)\<close> whose image
  file can be loaded: the loaded image, transformed when the dataset has a transform,
  and the path \<open>samples[index]\<close> of that image.
\<close>

lemma getitem_returns_path:
  assumes "0 \<le> index" and "index < len self" and "imgs (samples self ! nat index) = Some img0"
  shows "getitem imgs self index
           = Inr (case transform self of None \<Rightarrow> img0 | Some t \<Rightarrow> t img0,
                  PyStr (samples self ! nat index))"
  using assms by (simp add: getitem_def Let_def len_def)

text \<open>
  C4. The docstring of \<open>__getitem__\<close>, and the claim with it, give the second component
  of the pair as the index of the target class. On the dataset of the one sample
  \<open>data/JPEGImages/a.jpg\<close>, \<open>__getitem__\<close> at index 0 returns the loaded image and the
  path of the sample, a string: the target is not a class index.
\<close>

theorem getitem_target_is_path:
  "getitem [''data/JPEGImages/a.jpg'' \<mapsto> (7::nat)]
     \<lparr>root_dir = ''data'', transform = None, samples = [''data/JPEGImages/a.jpg''],
      data_list_file = ''data/ImageSets/Main/train.txt''\<rparr> 0
     = Inr (7, PyStr ''data/JPEGImages/a.jpg'')
   \<and> \<not> is_class_index (PyStr ''data/JPEGImages/a.jpg'')
   \<and> \<not> (\<exists>img k. getitem [''data/JPEGImages/a.jpg'' \<mapsto> (7::nat)]
     \<lparr>root_dir = ''data'', transform = None, samples = [''data/JPEGImages/a.jpg''],
      data_list_file = ''data/ImageSets/Main/train.txt''\<rparr> 0 = Inr (img, PyInt k))"
  by (simp add: getitem_def Let_def)

text \<open>
  C9. The claim is that \<open>translate\<close> leaves the source image files as they are and writes
  under \<open>target_root\<close> only. On the dataset with root \<open>data\<close> whose data list file has the
  one line \<open>/abs/a\<close>, the sample is the absolute path \<open>/abs/a.jpg\<close>, and translating to
  \<open>out\<close> saves the translated image, of the original size, at \<open>/abs/a.jpg\<close> itself: the
  path does not contain the root, \<open>str.replace\<close> returns it unchanged, and the source file
  is overwritten.
\<close>

theorem translate_overwrites_source:
  "\<exists>ds fs'.
      VOCImageFolder_init [''data/ImageSets/Main/trainval.txt'' \<mapsto> ''/abs/a'' @ [CHR 0x0A]]
        ''data'' ''trainval'' (None :: (nat \<Rightarrow> nat) option) (Some ''.jpg'') = Inr ds
    \<and> samples ds = [''/abs/a.jpg'']
    \<and> translate (\<lambda>p a b m. p) (\<lambda>p. p) ds (\<lambda>i. i\<lparr>pixels := Suc (pixels i)\<rparr>) ''out'' 4
        \<lparr>files = [''/abs/a.jpg'' \<mapsto> \<lparr>img_size = (5, 7), pixels = 0::nat\<rparr>], written = []\<rparr>
        = Inr fs'
    \<and> written fs' = [Makedirs ''out'', Makedirs ''/abs'', Save ''/abs/a.jpg'']
    \<and> files fs' ''/abs/a.jpg'' = Some \<lparr>img_size = (5, 7), pixels = 1\<rparr>
    \<and> \<not> prefix ''out'' ''/abs/a.jpg''"
  by (simp add: VOCImageFolder_init_def parse_data_file_def path_join_def join2_def isabs_def
      strip_def is_space_def translate_def make_power_2_def py_round_div_def resize_def
      dirname_def Let_def)

section \<open>Properties of \<open>build_dataset\<close>\<close>

lemma build_dataset_loop_step:
  "build_dataset_loop texts tr acc ((n, r) # rest) =
     (case chosen_dataset texts tr (n, r) of
        Inl e \<Rightarrow> Inl e
      | Inr d \<Rightarrow> build_dataset_loop texts tr (acc @ [d]) rest)"
  by (simp add: chosen_dataset_def dataset_choice_def)

lemma chosen_dataset_exists:
  "list_file_exists texts p \<Longrightarrow> \<exists>d. chosen_dataset texts tr p = Inr d"
  by (auto simp: list_file_exists_def chosen_dataset_def VOCImageFolder_init_def
      parse_data_file_def Let_def)

lemma build_dataset_loop_all:
  "list_all (list_file_exists texts) ps \<Longrightarrow>
   \<exists>ds. build_dataset_loop texts tr acc ps = Inr (acc @ ds)
      \<and> map Inr ds = map (chosen_dataset texts tr) ps"
proof (induction ps arbitrary: acc)
  case Nil
  then show ?case by simp
next
  case (Cons p ps)
  obtain n r where p: "p = (n, r)" by (cases p)
  from Cons.prems obtain d where d: "chosen_dataset texts tr p = Inr d"
    using chosen_dataset_exists by fastforce
  from Cons.prems have "list_all (list_file_exists texts) ps" by simp
  from Cons.IH[OF this, of "acc @ [d]"] obtain ds where
    ds: "build_dataset_loop texts tr (acc @ [d]) ps = Inr (acc @ [d] @ ds)"
        "map Inr ds = map (chosen_dataset texts tr) ps" by auto
  have "build_dataset_loop texts tr acc (p # ps) = Inr (acc @ (d # ds))"
    unfolding p build_dataset_loop_step using d ds(1) by (simp add: p)
  moreover have "map Inr (d # ds) = map (chosen_dataset texts tr) (p # ps)"
    using d ds(2) by simp
  ultimately show ?case by blast
qed

lemma cumsum_Nil_iff: "cumsum s ds = [] \<longleftrightarrow> ds = []"
  by (cases ds) simp_all

lemma last_cumsum:
  "ds \<noteq> [] \<Longrightarrow> last (cumsum s ds) = s + sum_list (map len ds)"
proof (induction ds arbitrary: s)
  case Nil
  then show ?case by simp
next
  case (Cons d ds)
  show ?case
  proof (cases "ds = []")
    case True
    then show ?thesis by (simp add: add.commute)
  next
    case False
    have "last (cumsum s (d # ds)) = last (cumsum (s + len d) ds)"
      using False by (simp add: cumsum_Nil_iff)
    also have "\<dots> = (s + len d) + sum_list (map len ds)"
      using Cons.IH[OF False] .
    finally show ?thesis by simp
  qed
qed

lemma zip_slices_odd:
  "odd (length xs) \<Longrightarrow>
   zip (slice_even xs) (slice_odd xs) = zip (slice_even (butlast xs)) (slice_odd (butlast xs))"
proof (induction xs rule: induct_list012)
  case 1
  then show ?case by simp
next
  case (2 x)
  then show ?case by simp
next
  case (3 x y zs)
  from 3(3) have o: "odd (length zs)" by simp
  then have "zs \<noteq> []" by auto
  with 3(1)[OF o] show ?case by simp
qed

lemma main_build_dataset_odd:
  "odd (length domains) \<Longrightarrow>
   main_build_dataset texts domains tr = main_build_dataset texts (butlast domains) tr"
  by (simp add: main_build_dataset_def build_dataset_def zip_slices_odd)

text \<open>
  C10, as the code has it. When names and roots give at least one pair and the data list
  file of every pair exists, \<open>build_dataset\<close> returns a \<open>ConcatDataset\<close> of exactly
  \<open>min(len(dataset_names), len(dataset_roots))\<close> datasets, the dataset of each pair built
  with the phase and extension chosen for its name, and its length is the sum of their
  lengths. An argument list of odd length gives \<open>main\<close> the same dataset as the list
  without its last element.
\<close>

theorem build_dataset_pairs:
  assumes "zip dataset_names dataset_roots \<noteq> []"
    and "list_all (list_file_exists texts) (zip dataset_names dataset_roots)"
  shows "(\<exists>cd. build_dataset texts dataset_names dataset_roots tr = Inr cd
           \<and> length (datasets cd) = min (length dataset_names) (length dataset_roots)
           \<and> map Inr (datasets cd)
               = map (chosen_dataset texts tr) (zip dataset_names dataset_roots)
           \<and> concat_len cd = sum_list (map len (datasets cd)))
       \<and> (odd (length domains) \<longrightarrow>
            main_build_dataset texts domains tr
              = main_build_dataset texts (butlast domains) tr)"
proof -
  from build_dataset_loop_all[OF assms(2), of tr "[]"] obtain ds where
    ds: "build_dataset_loop texts tr [] (zip dataset_names dataset_roots) = Inr ds"
        "map Inr ds = map (chosen_dataset texts tr) (zip dataset_names dataset_roots)"
    by auto
  from ds(2) have lz: "length ds = length (zip dataset_names dataset_roots)"
    using length_map by metis
  then have l: "length ds = min (length dataset_names) (length dataset_roots)" by simp
  from lz assms(1) have ne: "ds \<noteq> []" by (metis length_0_conv)
  have "build_dataset texts dataset_names dataset_roots tr
          = Inr \<lparr>datasets = ds, cumulative_sizes = cumsum 0 ds\<rparr>"
    using ds(1) ne by (simp add: build_dataset_def ConcatDataset_init_def)
  moreover have "concat_len \<lparr>datasets = ds, cumulative_sizes = cumsum 0 ds\<rparr>
                   = sum_list (map len ds)"
    using last_cumsum[OF ne, of 0] by (simp add: concat_len_def)
  ultimately show ?thesis
    using l ds(2) main_build_dataset_odd[of domains texts tr] by simp
qed

theorem build_dataset_pairs_witness:
  "\<exists>cd. main_build_dataset
          [''c/ImageSets/Main/trainval.txt'' \<mapsto> ''a'' @ [CHR 0x0A] @ ''b'' @ [CHR 0x0A],
           ''s/ImageSets/Main/trainval10k.txt'' \<mapsto> ''x'' @ [CHR 0x0A]]
          [''Cityscapes'', ''c'', ''Sim10k'', ''s'', ''Comic''] (\<lambda>x::nat. x) = Inr cd
     \<and> map samples (datasets cd)
         = [[''c/JPEGImages/a.png'', ''c/JPEGImages/b.png''], [''s/JPEGImages/x.jpg'']]
     \<and> concat_len cd = 3"
proof -
  let ?texts = "[''c/ImageSets/Main/trainval.txt'' \<mapsto> ''a'' @ [CHR 0x0A] @ ''b'' @ [CHR 0x0A],
           ''s/ImageSets/Main/trainval10k.txt'' \<mapsto> ''x'' @ [CHR 0x0A]]"
  let ?names = "[''Cityscapes'', ''Sim10k'', ''Comic'']"
  let ?roots = "[''c'', ''s'']"
  have h1: "zip ?names ?roots \<noteq> []" by simp
  have h2: "list_all (list_file_exists ?texts) (zip ?names ?roots)"
    by (simp add: list_file_exists_def dataset_choice_def path_join_def join2_def isabs_def)
  have c: "map (chosen_dataset ?texts (\<lambda>x::nat. x)) (zip ?names ?roots)
     = [Inr \<lparr>root_dir = ''c'', transform = Some (\<lambda>x. x),
              samples = [''c/JPEGImages/a.png'', ''c/JPEGImages/b.png''],
              data_list_file = ''c/ImageSets/Main/trainval.txt''\<rparr>,
        Inr \<lparr>root_dir = ''s'', transform = Some (\<lambda>x. x),
              samples = [''s/JPEGImages/x.jpg''],
              data_list_file = ''s/ImageSets/Main/trainval10k.txt''\<rparr>]"
    by (simp add: chosen_dataset_def dataset_choice_def VOCImageFolder_init_def
        parse_data_file_def path_join_def join2_def isabs_def strip_def is_space_def Let_def)
  from build_dataset_pairs[OF h1 h2, of "\<lambda>x::nat. x" "[]"] obtain cd where
    cd: "build_dataset ?texts ?names ?roots (\<lambda>x::nat. x) = Inr cd"
        "map Inr (datasets cd) = map (chosen_dataset ?texts (\<lambda>x::nat. x)) (zip ?names ?roots)"
        "concat_len cd = sum_list (map len (datasets cd))"
    by blast
  from cd(2) c have d: "datasets cd =
       [\<lparr>root_dir = ''c'', transform = Some (\<lambda>x. x),
              samples = [''c/JPEGImages/a.png'', ''c/JPEGImages/b.png''],
              data_list_file = ''c/ImageSets/Main/trainval.txt''\<rparr>,
        \<lparr>root_dir = ''s'', transform = Some (\<lambda>x. x),
              samples = [''s/JPEGImages/x.jpg''],
              data_list_file = ''s/ImageSets/Main/trainval10k.txt''\<rparr>]"
    by (auto simp only: map_eq_Cons_conv map_is_Nil_conv sum.inject)
  have "main_build_dataset ?texts [''Cityscapes'', ''c'', ''Sim10k'', ''s'', ''Comic''] (\<lambda>x::nat. x)
          = build_dataset ?texts ?names ?roots (\<lambda>x::nat. x)"
    by (simp add: main_build_dataset_def)
  with cd(1,3) d show ?thesis by (simp add: len_def)
qed

text \<open>
  C10, as stated, fails on an argument list of one element: there is no pair, and the
  constructor of \<open>ConcatDataset\<close> raises instead of returning a dataset of no parts.
\<close>

theorem build_dataset_single_counterexample:
  "main_build_dataset Map.empty [''VOC''] (\<lambda>x::nat. x) = Inl AssertionError"
  by (simp add: main_build_dataset_def build_dataset_def ConcatDataset_init_def)


section \<open>Properties of the training loop\<close>



lemma train_body_raised:
  "raised (snd (train_body T cg cc ci args st)) = raised st"
  by (simp add: train_body_def set_requires_grad_def backward_def Let_def
      split: prod.splits)







lemma train_iteration_raised:
  "raised (snd (train_iteration T cg cc ci args i x))
     = (if print_freq args = 0 then Some ZeroDivisionError else raised (snd x))"
  using train_body_raised[of T cg cc ci args "snd x"]
  by (simp add: train_iteration_def Let_def case_prod_beta)










text \<open>
  C2. In every iteration, with the two L1 criteria that \<open>main\<close> passes, the generator loss
  \<open>loss_G\<close> is the sum of six terms: the GAN loss of \<open>netD_T\<close> on
  \<open>fake_T = netG_S2T(real_S)\<close> and that of \<open>netD_S\<close> on \<open>fake_S = netG_T2S(real_T)\<close>, both
  judged as real; the two cycle losses, each times \<open>args.trade_off_cycle\<close>; and the two
  identity losses, each times \<open>args.trade_off_identity\<close>.
\<close>

theorem generator_loss_six_terms:
  "(let rS = fst (next_batch T (train_source_iter st));
        rT = fst (next_batch T (train_target_iter st));
        G_S2T = forward_G T (netG_S2T st);
        G_T2S = forward_G T (netG_T2S st);
        D_S = forward_D T (netD_S st);
        D_T = forward_D T (netD_T st);
        v = fst (train_body T cg (L1Loss T) (L1Loss T) args st)
    in real_S v = rS \<and> real_T v = rT \<and> fake_T v = G_S2T rS \<and> fake_S v = G_T2S rT
       \<and> loss_G v
           = cg (D_T (G_S2T rS)) True
             + cg (D_S (G_T2S rT)) True
             + L1Loss T (G_T2S (G_S2T rS)) rS * trade_off_cycle args
             + L1Loss T (G_S2T (G_T2S rT)) rT * trade_off_cycle args
             + L1Loss T (G_T2S rS) rS * trade_off_identity args
             + L1Loss T (G_S2T rT) rT * trade_off_identity args)"
  by (simp add: train_body_def generator_pass_def set_requires_grad_def backward_def Let_def
      case_prod_beta)

text \<open>
  C3. In every iteration, the loss of each discriminator is 0.5 times the sum of its GAN
  loss on the real batch, labelled real, and its GAN loss on the batch that the query of
  its image pool returns for the detached fake batch, labelled fake; and the step of
  \<open>optimizer_D\<close> is computed from these two losses, as functions of the discriminators'
  parameters, alone: the fake batch reaches a discriminator only through the pool.
\<close>

theorem discriminator_loss_pooled:
  "(let rS = fst (next_batch T (train_source_iter st));
        rT = fst (next_batch T (train_target_iter st));
        fS = fst (pool_query T (fake_S_pool st) (detach (forward_G T (netG_T2S st) rT)));
        fT = fst (pool_query T (fake_T_pool st) (detach (forward_G T (netG_S2T st) rS)));
        D_S = forward_D T (netD_S st);
        D_T = forward_D T (netD_T st);
        r = train_body T cg cc ci args st;
        v = fst r;
        st' = snd r
    in fake_S_' v = fS \<and> fake_T_' v = fT
       \<and> loss_D_S v = 0.5 * (cg (D_S rS) True + cg (D_S fS) False)
       \<and> loss_D_T v = 0.5 * (cg (D_T rT) True + cg (D_T fT) False)
       \<and> ((netD_S st', netD_T st'), optimizer_D st')
           = adam_D T (optimizer_D st) [NetD_S, NetD_T]
               (\<lambda>d. 0.5 * (cg (forward_D T d rS) True + cg (forward_D T d fS) False))
               (\<lambda>d. 0.5 * (cg (forward_D T d rT) True + cg (forward_D T d fT) False))
               (netD_S st, netD_T st))"
  by (simp add: train_body_def generator_pass_def discriminator_loss_def[abs_def]
      set_requires_grad_def backward_def Let_def case_prod_beta)


section \<open>Properties of the meters\<close>

lemma meter_of_AverageMeter: "meter_of AverageMeter f n 0"
  by (simp add: meter_of_def AverageMeter_def)

lemma meter_of_update:
  "meter_of m f n j \<Longrightarrow> v = f j \<Longrightarrow> c = n j \<Longrightarrow> meter_of (update m v c) f n (Suc j)"
  by (auto simp: meter_of_def update_def Let_def)

lemma meter_of_avg:
  assumes "meter_of m f n (Suc k)" and "0 < (\<Sum>j\<le>k. n j)"
  shows "m_avg m = weighted_average f n k"
  using assms by (simp add: meter_of_def weighted_average_def lessThan_Suc_atMost)

lemma train_loop_Suc_end:
  assumes "print_freq args \<noteq> 0" and "raised (snd x) = None"
  shows "train_loop T cg cc ci args i (Suc k) x
           = train_iteration T cg cc ci args (i + int k) (train_loop T cg cc ci args i k x)"
  using assms(2)
proof (induction k arbitrary: i x)
  case 0
  then show ?case by simp
next
  case (Suc k)
  let ?y = "train_iteration T cg cc ci args i x"
  have r: "raised (snd ?y) = None"
    using Suc.prems assms(1) by (simp add: train_iteration_raised)
  have a: "train_loop T cg cc ci args i (Suc (Suc k)) x
          = train_loop T cg cc ci args (i + 1) (Suc k) ?y"
    using Suc.prems by simp
  have b: "train_loop T cg cc ci args (i + 1) (Suc k) ?y
          = train_iteration T cg cc ci args (i + 1 + int k)
              (train_loop T cg cc ci args (i + 1) k ?y)"
    by (rule Suc.IH[OF r])
  have c: "train_loop T cg cc ci args (i + 1) k ?y = train_loop T cg cc ci args i (Suc k) x"
    using Suc.prems by simp
  have d: "i + 1 + int k = i + int (Suc k)" by simp
  show ?case by (simp only: a b c d)
qed

lemma train_iteration_meters:
  "fst (train_iteration T cg cc ci args i x)
     = (let v = fst (train_body T cg cc ci args (snd x))
        in update_meters (fst x) v (size0 T (real_S v)))"
  by (simp add: train_iteration_def Let_def case_prod_beta)

lemma train_loop_meters_step:
  assumes "print_freq args \<noteq> 0" and "raised st = None"
  shows "fst (train_loop T cg cc ci args 0 (Suc j) (new_meters, st))
           = update_meters (fst (train_loop T cg cc ci args 0 j (new_meters, st)))
               (iteration_locals T cg cc ci args st j)
               (size0 T (real_S (iteration_locals T cg cc ci args st j)))"
proof -
  have r: "raised (snd (new_meters, st)) = None" using assms(2) by simp
  show ?thesis
    unfolding train_loop_Suc_end[OF assms(1) r]
    by (simp add: train_iteration_meters iteration_locals_def Let_def)
qed


lemma train_loop_meter_of:
  assumes "print_freq args \<noteq> 0" and "raised st = None"
  shows "(let ms = fst (train_loop T cg cc ci args 0 j (new_meters, st));
              V = iteration_locals T cg cc ci args st;
              n = (\<lambda>j. size0 T (real_S (V j)))
          in meter_of (losses_G_S2T ms) (\<lambda>j. loss_G_S2T (V j)) n j
           \<and> meter_of (losses_G_T2S ms) (\<lambda>j. loss_G_T2S (V j)) n j
           \<and> meter_of (losses_D_S ms) (\<lambda>j. loss_D_S (V j)) n j
           \<and> meter_of (losses_D_T ms) (\<lambda>j. loss_D_T (V j)) n j
           \<and> meter_of (losses_cycle_S ms) (\<lambda>j. loss_cycle_S (V j)) n j
           \<and> meter_of (losses_cycle_T ms) (\<lambda>j. loss_cycle_T (V j)) n j
           \<and> meter_of (losses_identity_S ms) (\<lambda>j. loss_identity_S (V j)) n j
           \<and> meter_of (losses_identity_T ms) (\<lambda>j. loss_identity_T (V j)) n j)"
proof (induction j)
  case 0
  show ?case by (simp add: new_meters_def meter_of_AverageMeter)
next
  case (Suc j)
  show ?case
    using Suc.IH
    unfolding train_loop_meters_step[OF assms] Let_def update_meters_def
    by (auto intro: meter_of_update)
qed

text \<open>
  C7. After iteration \<open>k\<close> of a call of \<open>train\<close>, each of the eight loss meters holds as its
  average the running average of its loss over the iterations \<open>0, \<dots>, k\<close> of this call,
  each value weighted by the size of the source batch of its iteration. The meters that
  \<open>train\<close> ends with are these, started from new meters, whatever happened before the
  call. (Hypotheses: no exception ends the loop, and some batch is not empty.)
\<close>

theorem meters_running_average:
  assumes "print_freq args \<noteq> 0" and "raised st = None"
    and "0 < (\<Sum>j\<le>k. size0 T (real_S (iteration_locals T cg cc ci args st j)))"
  shows "(let ms = fst (train_loop T cg cc ci args 0 (Suc k) (new_meters, st));
              V = iteration_locals T cg cc ci args st;
              n = (\<lambda>j. size0 T (real_S (V j)))
          in m_avg (losses_G_S2T ms) = weighted_average (\<lambda>j. loss_G_S2T (V j)) n k
           \<and> m_avg (losses_G_T2S ms) = weighted_average (\<lambda>j. loss_G_T2S (V j)) n k
           \<and> m_avg (losses_D_S ms) = weighted_average (\<lambda>j. loss_D_S (V j)) n k
           \<and> m_avg (losses_D_T ms) = weighted_average (\<lambda>j. loss_D_T (V j)) n k
           \<and> m_avg (losses_cycle_S ms) = weighted_average (\<lambda>j. loss_cycle_S (V j)) n k
           \<and> m_avg (losses_cycle_T ms) = weighted_average (\<lambda>j. loss_cycle_T (V j)) n k
           \<and> m_avg (losses_identity_S ms) = weighted_average (\<lambda>j. loss_identity_S (V j)) n k
           \<and> m_avg (losses_identity_T ms) = weighted_average (\<lambda>j. loss_identity_T (V j)) n k
           \<and> (nat (iters_per_epoch args) = Suc k \<longrightarrow>
                fst (train T cg cc ci epoch args st) = ms))"
  using train_loop_meter_of[OF assms(1,2), of T cg cc ci "Suc k"] assms(3)
  unfolding Let_def
  by (simp add: meter_of_avg train_def)


theorem meters_running_average_witness:
  "m_avg (losses_G_S2T (fst (train_loop example_torch
       (LeastSquaresGenerativeAdversarialLoss example_torch) (L1Loss example_torch)
       (L1Loss example_torch) example_args 0 (Suc (Suc 0)) (new_meters, example_state)))) = 40"
proof -
  let ?cg = "LeastSquaresGenerativeAdversarialLoss example_torch"
  let ?l1 = "L1Loss example_torch"
  let ?V = "iteration_locals example_torch ?cg ?l1 ?l1 example_args example_state"
  have h1: "print_freq example_args \<noteq> 0" by (simp add: example_args_def)
  have h2: "raised example_state = None" by (simp add: example_state_def)
  have h3: "0 < (\<Sum>j\<le>Suc 0. size0 example_torch (real_S (?V j)))"
    by (simp add: example_torch_def)
  have v0: "loss_G_S2T (?V 0) = 16"
    by (simp add: iteration_locals_def train_body_def generator_pass_def set_requires_grad_def
        backward_def Let_def case_prod_beta example_torch_def example_state_def example_args_def)
  have x1: "snd (train_loop example_torch ?cg ?l1 ?l1 example_args 0 (Suc 0) (new_meters, example_state))
       = snd (train_body example_torch ?cg ?l1 ?l1 example_args example_state)
           \<lparr>log := log (snd (train_body example_torch ?cg ?l1 ?l1 example_args example_state))
               @ Display 0 # map (Visualize 0) [''real_S'', ''real_T'', ''fake_S'', ''fake_T'',
                   ''rec_S'', ''rec_T'', ''identity_S'', ''identity_T'']\<rparr>"
    by (simp add: train_iteration_def Let_def case_prod_beta example_args_def example_state_def)
  have v1: "loss_G_S2T (?V (Suc 0)) = 64"
    unfolding iteration_locals_def x1
    by (simp add: train_body_def generator_pass_def set_requires_grad_def
        backward_def Let_def case_prod_beta example_torch_def example_state_def example_args_def)
  have "m_avg (losses_G_S2T (fst (train_loop example_torch ?cg ?l1 ?l1 example_args 0
            (Suc (Suc 0)) (new_meters, example_state))))
          = weighted_average (\<lambda>j. loss_G_S2T (?V j))
              (\<lambda>j. size0 example_torch (real_S (?V j))) (Suc 0)"
    using meters_running_average[OF h1 h2 h3] unfolding Let_def by (rule conjunct1)
  also have "\<dots> = 40"
    by (simp add: weighted_average_def v0 v1) (simp add: example_torch_def)
  finally show ?thesis .
qed


section \<open>Properties of the epochs of \<open>main\<close>\<close>






























end
